theory Spec2Isabelle
  imports Complex_Main
begin

section \<open>Matrix factorization model (collie/model/matrix_factorization.py)\<close>

text \<open>
  A shallow embedding of \<^verbatim>\<open>MatrixFactorizationModel\<close>. A 2-d float tensor is the list
  of its rows, a 1-d tensor a list, with real entries. \<open>forward\<close> computes in exact real
  arithmetic; \<open>forward_f32\<close> is the same pass with every operation rounded to float32.
  An index tensor is a list of (unbounded) integers. Every exception the forward pass
  can raise is a value of \<open>error\<close>.
\<close>

subsection \<open>Data model\<close>

type_synonym tensor1 = "real list"
type_synonym tensor2 = "real list list"

datatype error = IndexError | RuntimeError | ValueError

text \<open>
  The hyperparameters read by \<^verbatim>\<open>_setup_model\<close> and \<^verbatim>\<open>forward\<close>
  (\<^verbatim>\<open>self.hparams\<close>). \<open>y_range\<close> is \<^verbatim>\<open>Optional[Tuple[float, float]]\<close>.
\<close>

record hparams =
  num_users :: nat
  num_items :: nat
  embedding_dim :: nat
  dropout_p :: real
  sparse :: bool
  y_range :: "(real \<times> real) option"

text \<open>
  The model instance: its hyperparameters, the four parameter tables created by
  \<^verbatim>\<open>_setup_model\<close> (the \<^verbatim>\<open>weight\<close> of each embedding layer) and the
  \<^verbatim>\<open>training\<close> flag that \<^verbatim>\<open>model.train()\<close> and \<^verbatim>\<open>model.eval()\<close>
  set on the module and on its dropout layer.
\<close>

record model =
  hp :: hparams
  user_biases :: tensor2
  item_biases :: tensor2
  user_embeddings :: tensor2
  item_embeddings :: tensor2
  training :: bool

subsection \<open>Framework primitives used by the forward pass\<close>

text \<open>
  A raised exception ends the computation: \<open>and_then r f\<close> continues with \<open>f\<close> on
  the value of \<open>r\<close>, or returns the error of \<open>r\<close>.
\<close>

definition and_then :: "error + 'a \<Rightarrow> ('a \<Rightarrow> error + 'b) \<Rightarrow> error + 'b" where
  "and_then r f = (case r of Inl e \<Rightarrow> Inl e | Inr x \<Rightarrow> f x)"

text \<open>
  Calling an embedding layer on a 1-d index tensor gathers the rows of its weight. An
  index outside \<open>[0, num_embeddings)\<close> (a negative one included) raises the framework's
  indexing error.
\<close>

definition embedding :: "tensor2 \<Rightarrow> int list \<Rightarrow> error + tensor2" where
  "embedding weight idx =
     (if list_all (\<lambda>i. 0 \<le> i \<and> i < int (length weight)) idx
      then Inr (map (\<lambda>i. weight ! nat i) idx)
      else Inl IndexError)"

text \<open>
  \<^verbatim>\<open>nn.Dropout(p)\<close> applied to a 2-d tensor. Outside training mode, or with \<open>p = 0\<close>,
  the input is returned unchanged. In training mode each entry is multiplied by an
  independent Bernoulli(1 - p) draw and by the scale \<open>1 / (1 - p)\<close> (scale 0 when
  \<open>p = 1\<close>). The random draw is an explicit argument: \<open>noise k j\<close> says whether the
  entry in row \<open>k\<close>, column \<open>j\<close> survives.
\<close>

definition dropout :: "real \<Rightarrow> bool \<Rightarrow> (nat \<Rightarrow> nat \<Rightarrow> bool) \<Rightarrow> tensor2 \<Rightarrow> tensor2" where
  "dropout p train noise input =
     (if p = 0 \<or> \<not> train then input
      else map (\<lambda>k. map (\<lambda>j. input ! k ! j *
                              (if p = 1 then 0
                               else (if noise k j then 1 else 0) / (1 - p)))
                        [0..<length (input ! k)])
               [0..<length input])"

text \<open>
  \<^verbatim>\<open>torch.mul\<close> on two 2-d tensors with the same number of columns (both embedding
  tables are built with \<^verbatim>\<open>hparams.embedding_dim\<close> columns). The leading dimension
  broadcasts: equal sizes multiply row by row, a single row is repeated against the
  other tensor, any other pair of sizes raises a \<^verbatim>\<open>RuntimeError\<close>.
\<close>

definition torch_mul :: "tensor2 \<Rightarrow> tensor2 \<Rightarrow> error + tensor2" where
  "torch_mul a b =
     (if length a = length b then Inr (map2 (\<lambda>r s. map2 (*) r s) a b)
      else if length a = 1 then Inr (map (\<lambda>s. map2 (*) (hd a) s) b)
      else if length b = 1 then Inr (map (\<lambda>r. map2 (*) r (hd b)) a)
      else Inl RuntimeError)"

text \<open>\<^verbatim>\<open>.sum(axis=1)\<close>: the sum of every row.\<close>

definition sum_axis1 :: "tensor2 \<Rightarrow> tensor1" where
  "sum_axis1 t = map sum_list t"

text \<open>
  \<^verbatim>\<open>.squeeze(1)\<close> on a tensor with one column (the bias tables are built with
  \<^verbatim>\<open>embedding_dim=1\<close>): the column axis is dropped.
\<close>

definition squeeze1 :: "tensor2 \<Rightarrow> tensor1" where
  "squeeze1 t = map (\<lambda>r. r ! 0) t"

text \<open>\<open>+\<close> on two 1-d tensors, with the same broadcasting rule as \<open>torch_mul\<close>.\<close>

definition torch_add :: "tensor1 \<Rightarrow> tensor1 \<Rightarrow> error + tensor1" where
  "torch_add a b =
     (if length a = length b then Inr (map2 (+) a b)
      else if length a = 1 then Inr (map (\<lambda>y. hd a + y) b)
      else if length b = 1 then Inr (map (\<lambda>x. x + hd b) a)
      else Inl RuntimeError)"

text \<open>\<^verbatim>\<open>torch.sigmoid\<close>, the logistic function.\<close>

definition sigmoid :: "real \<Rightarrow> real" where
  "sigmoid x = 1 / (1 + exp (- x))"

subsection \<open>forward\<close>

text \<open>
  The squash of lines 150-155, for one entry:
  \<^verbatim>\<open>torch.sigmoid(preds) * (y_range[1] - y_range[0]) + y_range[0]\<close>.
\<close>

definition apply_y_range :: "(real \<times> real) option \<Rightarrow> tensor1 \<Rightarrow> tensor1" where
  "apply_y_range yr preds =
     (case yr of
        None \<Rightarrow> preds
      | Some r \<Rightarrow> map (\<lambda>s. sigmoid s * (snd r - fst r) + fst r) preds)"

text \<open>
  \<^verbatim>\<open>forward(users, items)\<close>, in the order the source evaluates it: the two embedding
  lookups, the product of the two dropped-out embeddings summed over the columns, the
  user bias lookup and its addition, the item bias lookup and its addition, and last the
  optional squash. \<open>noise_u\<close> and \<open>noise_i\<close> are the draws of the two dropout calls.
\<close>

definition forward ::
  "model \<Rightarrow> (nat \<Rightarrow> nat \<Rightarrow> bool) \<Rightarrow> (nat \<Rightarrow> nat \<Rightarrow> bool) \<Rightarrow> int list \<Rightarrow> int list \<Rightarrow> error + tensor1" where
  "forward m noise_u noise_i users items =
     and_then (embedding (user_embeddings m) users) (\<lambda>ue.
     and_then (embedding (item_embeddings m) items) (\<lambda>ie.
     and_then (torch_mul (dropout (dropout_p (hp m)) (training m) noise_u ue)
                         (dropout (dropout_p (hp m)) (training m) noise_i ie)) (\<lambda>prods.
     and_then (embedding (user_biases m) users) (\<lambda>ub.
     and_then (torch_add (sum_axis1 prods) (squeeze1 ub)) (\<lambda>s.
     and_then (embedding (item_biases m) items) (\<lambda>ib.
     and_then (torch_add s (squeeze1 ib)) (\<lambda>preds.
     Inr (apply_y_range (y_range (hp m)) preds))))))))"

subsection \<open>Model setup\<close>

text \<open>
  Modelled from the spec: \<^verbatim>\<open>ZeroEmbedding\<close> and \<^verbatim>\<open>ScaledEmbedding\<close> are defined in
  \<^verbatim>\<open>collie.model.base\<close>, which is not among the sources. The spec gives a bias table
  as a \<open>(count \<times> 1)\<close> table "initialized to zero", and an embedding table as a
  \<open>(count \<times> embedding_dim)\<close> table "initialized with small-scale random values"; the
  random values are the argument \<open>init\<close> (row, column).
\<close>

definition ZeroEmbedding :: "nat \<Rightarrow> nat \<Rightarrow> tensor2" where
  "ZeroEmbedding num_embeddings ncols = replicate num_embeddings (replicate ncols 0)"

definition ScaledEmbedding :: "(nat \<Rightarrow> nat \<Rightarrow> real) \<Rightarrow> nat \<Rightarrow> nat \<Rightarrow> tensor2" where
  "ScaledEmbedding init num_embeddings ncols =
     map (\<lambda>r. map (\<lambda>c. init r c) [0..<ncols]) [0..<num_embeddings]"

text \<open>
  \<^verbatim>\<open>_setup_model\<close>: the two bias tables with \<^verbatim>\<open>embedding_dim=1\<close>, the two
  embedding tables with \<^verbatim>\<open>hparams.embedding_dim\<close> columns, and the dropout layer,
  whose constructor raises \<^verbatim>\<open>ValueError\<close> unless \<open>0 \<le> p \<le> 1\<close>. A freshly built
  module is in training mode.
\<close>

definition setup_model ::
  "hparams \<Rightarrow> (nat \<Rightarrow> nat \<Rightarrow> real) \<Rightarrow> (nat \<Rightarrow> nat \<Rightarrow> real) \<Rightarrow> error + model" where
  "setup_model h init_u init_i =
     (if dropout_p h < 0 \<or> dropout_p h > 1 then Inl ValueError
      else Inr \<lparr> hp = h,
                 user_biases = ZeroEmbedding (num_users h) 1,
                 item_biases = ZeroEmbedding (num_items h) 1,
                 user_embeddings = ScaledEmbedding init_u (num_users h) (embedding_dim h),
                 item_embeddings = ScaledEmbedding init_i (num_items h) (embedding_dim h),
                 training = True \<rparr>)"

subsection \<open>Well-formed models and valid batches\<close>

text \<open>
  The shapes \<^verbatim>\<open>_setup_model\<close> establishes and that training, saving and loading keep:
  every table has one row per user (item), the embedding rows have \<open>embedding_dim\<close>
  entries and the bias rows one.
\<close>

definition wf_model :: "model \<Rightarrow> bool" where
  "wf_model m =
     (length (user_embeddings m) = num_users (hp m) \<and>
      length (item_embeddings m) = num_items (hp m) \<and>
      length (user_biases m) = num_users (hp m) \<and>
      length (item_biases m) = num_items (hp m) \<and>
      list_all (\<lambda>r. length r = embedding_dim (hp m)) (user_embeddings m) \<and>
      list_all (\<lambda>r. length r = embedding_dim (hp m)) (item_embeddings m) \<and>
      list_all (\<lambda>r. length r = 1) (user_biases m) \<and>
      list_all (\<lambda>r. length r = 1) (item_biases m))"

text \<open>
  A valid batch: two index lists of equal length, every user index in
  \<open>[0, num_users)\<close> and every item index in \<open>[0, num_items)\<close>.
\<close>

definition valid_batch :: "model \<Rightarrow> int list \<Rightarrow> int list \<Rightarrow> bool" where
  "valid_batch m users items =
     (length users = length items \<and>
      list_all (\<lambda>u. 0 \<le> u \<and> u < int (num_users (hp m))) users \<and>
      list_all (\<lambda>i. 0 \<le> i \<and> i < int (num_items (hp m))) items)"

text \<open>The rows an embedding layer returns for a valid index list.\<close>

definition gather :: "tensor2 \<Rightarrow> int list \<Rightarrow> tensor2" where
  "gather weight idx = map (\<lambda>i. weight ! nat i) idx"

text \<open>The dot product of two rows over the first \<open>d\<close> columns.\<close>

definition dot :: "nat \<Rightarrow> real list \<Rightarrow> real list \<Rightarrow> real" where
  "dot d r s = (\<Sum>j<d. r ! j * s ! j)"

text \<open>
  The score of the pair at batch position \<open>k\<close> before the squash, in closed form: the
  dot product of the two dropped-out embedding rows plus the two bias entries.
\<close>

definition raw_score ::
  "model \<Rightarrow> (nat \<Rightarrow> nat \<Rightarrow> bool) \<Rightarrow> (nat \<Rightarrow> nat \<Rightarrow> bool) \<Rightarrow> int list \<Rightarrow> int list \<Rightarrow> nat \<Rightarrow> real" where
  "raw_score m noise_u noise_i users items k =
     dot (embedding_dim (hp m))
         (dropout (dropout_p (hp m)) (training m) noise_u (gather (user_embeddings m) users) ! k)
         (dropout (dropout_p (hp m)) (training m) noise_i (gather (item_embeddings m) items) ! k)
     + user_biases m ! nat (users ! k) ! 0
     + item_biases m ! nat (items ! k) ! 0"

text \<open>The same model with \<^verbatim>\<open>y_range=None\<close>: its forward pass returns the raw scores.\<close>

definition unsquashed :: "model \<Rightarrow> model" where
  "unsquashed m = m\<lparr>hp := (hp m)\<lparr>y_range := None\<rparr>\<rparr>"

text \<open>The same model with both bias tables set to zero.\<close>

definition zero_biases :: "model \<Rightarrow> model" where
  "zero_biases m =
     m\<lparr>user_biases := map (map (\<lambda>x. 0)) (user_biases m),
       item_biases := map (map (\<lambda>x. 0)) (item_biases m)\<rparr>"

text \<open>A table all of whose entries are zero.\<close>

definition all_zero :: "tensor2 \<Rightarrow> bool" where
  "all_zero t = list_all (list_all (\<lambda>x. x = 0)) t"

subsection \<open>Concrete models and dropout draws\<close>

definition keep_all :: "nat \<Rightarrow> nat \<Rightarrow> bool" where
  "keep_all k j = True"

definition drop_all :: "nat \<Rightarrow> nat \<Rightarrow> bool" where
  "drop_all k j = False"

definition keep_even :: "nat \<Rightarrow> nat \<Rightarrow> bool" where
  "keep_even k j = even (k + j)"

text \<open>Two users, three items, two latent factors, dropout 1/2, training mode.\<close>

definition example_hparams :: hparams where
  "example_hparams =
     \<lparr> num_users = 2, num_items = 3, embedding_dim = 2, dropout_p = 1 / 2,
       sparse = False, y_range = None \<rparr>"

definition example_model :: model where
  "example_model =
     \<lparr> hp = example_hparams,
       user_biases = [[1], [2]],
       item_biases = [[3], [4], [5]],
       user_embeddings = [[1, 2], [3, 4]],
       item_embeddings = [[1, 0], [0, 1], [1, 1]],
       training = True \<rparr>"

text \<open>The same tables with the output range \<open>(1, 5)\<close>.\<close>

definition ranged_model :: model where
  "ranged_model = example_model\<lparr>hp := example_hparams\<lparr>y_range := Some (1, 5)\<rparr>\<rparr>"

text \<open>One user, one item, every table zero, evaluation mode, output range \<open>(0, 1)\<close>.\<close>

definition zero_model :: model where
  "zero_model =
     \<lparr> hp = \<lparr> num_users = 1, num_items = 1, embedding_dim = 1, dropout_p = 0,
              sparse = False, y_range = Some (0, 1) \<rparr>,
       user_biases = [[0]],
       item_biases = [[0]],
       user_embeddings = [[0]],
       item_embeddings = [[0]],
       training = False \<rparr>"

text \<open>
  One user, one item, zero embeddings, biases 1 and -1, evaluation mode, output range
  \<open>(0, 10)\<close>.
\<close>

definition bias_model :: model where
  "bias_model =
     \<lparr> hp = \<lparr> num_users = 1, num_items = 1, embedding_dim = 1, dropout_p = 0,
              sparse = False, y_range = Some (0, 10) \<rparr>,
       user_biases = [[1]],
       item_biases = [[- 1]],
       user_embeddings = [[0]],
       item_embeddings = [[0]],
       training = False \<rparr>"

subsection \<open>The forward pass in float32 arithmetic\<close>

















section \<open>Lemmas on the primitives\<close>

lemma embedding_valid:
  "list_all (\<lambda>i. 0 \<le> i \<and> i < int (length weight)) idx \<Longrightarrow>
   embedding weight idx = Inr (gather weight idx)"
  by (simp add: embedding_def gather_def)

lemma length_dropout: "length (dropout p tr noise x) = length x"
  by (simp add: dropout_def)

lemma length_dropout_nth:
  "k < length x \<Longrightarrow> length (dropout p tr noise x ! k) = length (x ! k)"
  by (simp add: dropout_def)

lemma dropout_eval_mode: "dropout p False noise x = x"
  by (simp add: dropout_def)

lemma dropout_p_zero: "dropout 0 tr noise x = x"
  by (simp add: dropout_def)

lemma dropout_zero_entry:
  assumes "k < length x" and "j < length (x ! k)" and "x ! k ! j = 0"
  shows "dropout p tr noise x ! k ! j = 0"
  using assms by (simp add: dropout_def)

lemma sum_list_map2_mult:
  "length r = d \<Longrightarrow> length s = d \<Longrightarrow> sum_list (map2 (*) r s) = dot d r s"
  unfolding dot_def by (simp add: sum_list_sum_nth atLeast0LessThan)

lemma length_gather: "length (gather w idx) = length idx"
  by (simp add: gather_def)

lemma gather_nth: "k < length idx \<Longrightarrow> gather w idx ! k = w ! nat (idx ! k)"
  by (simp add: gather_def)

lemma valid_index_nth:
  "list_all (\<lambda>i. 0 \<le> i \<and> i < int n) idx \<Longrightarrow> k < length idx \<Longrightarrow> nat (idx ! k) < n"
  by (auto simp: list_all_length)

lemma gather_row_length:
  "list_all (\<lambda>r. length r = d) w \<Longrightarrow>
   list_all (\<lambda>i. 0 \<le> i \<and> i < int (length w)) idx \<Longrightarrow>
   k < length idx \<Longrightarrow> length (gather w idx ! k) = d"
  by (auto simp: gather_nth list_all_length)

section \<open>The forward pass on a valid batch\<close>

text \<open>
  On a well-formed model and a valid batch no lookup fails and no shape clashes: the
  forward pass returns the squash of the closed-form scores, one per batch position.
\<close>

lemma forward_valid:
  assumes wf: "wf_model m" and vb: "valid_batch m users items"
  shows "forward m noise_u noise_i users items =
         Inr (apply_y_range (y_range (hp m))
               (map (raw_score m noise_u noise_i users items) [0..<length users]))"
proof -
  let ?p = "dropout_p (hp m)" and ?tr = "training m" and ?d = "embedding_dim (hp m)"
  let ?ue = "gather (user_embeddings m) users" and ?ie = "gather (item_embeddings m) items"
  let ?ub = "gather (user_biases m) users" and ?ib = "gather (item_biases m) items"
  let ?du = "dropout ?p ?tr noise_u ?ue" and ?di = "dropout ?p ?tr noise_i ?ie"
  let ?score = "raw_score m noise_u noise_i users items"
  have len: "length users = length items"
    using vb by (simp add: valid_batch_def)
  have vu: "list_all (\<lambda>i. 0 \<le> i \<and> i < int (length (user_embeddings m))) users"
    and vi: "list_all (\<lambda>i. 0 \<le> i \<and> i < int (length (item_embeddings m))) items"
    and vub: "list_all (\<lambda>i. 0 \<le> i \<and> i < int (length (user_biases m))) users"
    and vib: "list_all (\<lambda>i. 0 \<le> i \<and> i < int (length (item_biases m))) items"
    using wf vb by (simp_all add: wf_model_def valid_batch_def)
  have rows_u: "list_all (\<lambda>r. length r = ?d) (user_embeddings m)"
    and rows_i: "list_all (\<lambda>r. length r = ?d) (item_embeddings m)"
    using wf by (simp_all add: wf_model_def)
  have e1: "embedding (user_embeddings m) users = Inr ?ue"
    by (rule embedding_valid[OF vu])
  have e2: "embedding (item_embeddings m) items = Inr ?ie"
    by (rule embedding_valid[OF vi])
  have e3: "embedding (user_biases m) users = Inr ?ub"
    by (rule embedding_valid[OF vub])
  have e4: "embedding (item_biases m) items = Inr ?ib"
    by (rule embedding_valid[OF vib])
  let ?prods = "map2 (\<lambda>r s. map2 (*) r s) ?du ?di"
  have mul: "torch_mul ?du ?di = Inr ?prods"
    by (simp add: torch_mul_def length_dropout length_gather len)
  let ?s = "map2 (+) (sum_axis1 ?prods) (squeeze1 ?ub)"
  have add1: "torch_add (sum_axis1 ?prods) (squeeze1 ?ub) = Inr ?s"
    by (simp add: torch_add_def sum_axis1_def squeeze1_def length_dropout length_gather len)
  let ?preds = "map2 (+) ?s (squeeze1 ?ib)"
  have add2: "torch_add ?s (squeeze1 ?ib) = Inr ?preds"
    by (simp add: torch_add_def sum_axis1_def squeeze1_def length_dropout length_gather len)
  have fw: "forward m noise_u noise_i users items = Inr (apply_y_range (y_range (hp m)) ?preds)"
    unfolding forward_def by (simp only: e1 e2 e3 e4 mul add1 add2 and_then_def sum.case)
  have "?preds = map ?score [0..<length users]"
  proof (rule nth_equalityI)
    show "length ?preds = length (map ?score [0..<length users])"
      by (simp add: sum_axis1_def squeeze1_def length_dropout length_gather len)
  next
    fix k assume "k < length ?preds"
    then have k: "k < length users" and k': "k < length items"
      by (simp_all add: sum_axis1_def squeeze1_def length_dropout length_gather len)
    have lu: "length (?du ! k) = ?d"
      using k by (simp add: length_dropout_nth length_gather gather_row_length[OF rows_u vu])
    have li: "length (?di ! k) = ?d"
      using k' by (simp add: length_dropout_nth length_gather gather_row_length[OF rows_i vi])
    have "?preds ! k = sum_list (map2 (*) (?du ! k) (?di ! k)) + ?ub ! k ! 0 + ?ib ! k ! 0"
      using k k' by (simp add: sum_axis1_def squeeze1_def length_dropout length_gather)
    also have "\<dots> = ?score k"
      using k k' by (simp add: raw_score_def sum_list_map2_mult[OF lu li] gather_nth)
    finally show "?preds ! k = map ?score [0..<length users] ! k"
      using k by simp
  qed
  with fw show ?thesis by simp
qed

lemma unsquashed_wf: "wf_model (unsquashed m) = wf_model m"
  by (simp add: wf_model_def unsquashed_def)

lemma unsquashed_valid: "valid_batch (unsquashed m) users items = valid_batch m users items"
  by (simp add: valid_batch_def unsquashed_def)

lemma unsquashed_raw_score:
  "raw_score (unsquashed m) noise_u noise_i users items = raw_score m noise_u noise_i users items"
  by (rule ext) (simp add: raw_score_def unsquashed_def)

lemma forward_unsquashed_valid:
  assumes "wf_model m" and "valid_batch m users items"
  shows "forward (unsquashed m) noise_u noise_i users items =
         Inr (map (raw_score m noise_u noise_i users items) [0..<length users])"
proof -
  have "y_range (hp (unsquashed m)) = None"
    by (simp add: unsquashed_def)
  then show ?thesis
    using forward_valid[of "unsquashed m" users items noise_u noise_i] assms
    by (simp add: unsquashed_wf unsquashed_valid unsquashed_raw_score apply_y_range_def)
qed

section \<open>The logistic function\<close>

lemma sigmoid_pos: "0 < sigmoid x"
  by (simp add: sigmoid_def add_pos_pos)

lemma sigmoid_less_one: "sigmoid x < 1"
proof -
  have "0 < 1 + exp (- x)"
    by (simp add: add_pos_pos)
  then show ?thesis
    unfolding sigmoid_def by (simp add: divide_less_eq_1_pos)
qed

lemma sigmoid_mono: "x \<le> y \<Longrightarrow> sigmoid x \<le> sigmoid y"
  unfolding sigmoid_def by (intro divide_left_mono) (simp_all add: add_pos_pos)



lemma squash_strict_lower: "lo < hi \<Longrightarrow> lo < sigmoid s * (hi - lo) + lo"
  using sigmoid_pos[of s] by simp

lemma squash_strict_upper:
  assumes "lo < hi"
  shows "sigmoid s * (hi - lo) + lo < hi"
proof -
  have "sigmoid s * (hi - lo) < 1 * (hi - lo)"
    using sigmoid_less_one[of s] assms by (intro mult_strict_right_mono) simp_all
  then show ?thesis by simp
qed

lemma squash_mono:
  assumes "lo \<le> hi" and "s1 \<le> s2"
  shows "sigmoid s1 * (hi - lo) + lo \<le> sigmoid s2 * (hi - lo) + lo"
  using sigmoid_mono[OF assms(2)] assms(1) by (simp add: mult_right_mono)

section \<open>Float32 rounding\<close>



















section \<open>The claims\<close>

text \<open>
  C1. For every batch of valid user and item indices of equal length, with no output
  range configured, \<open>forward\<close> returns one prediction per pair, and the prediction at
  batch position \<open>k\<close>, for the pair \<open>(u, i) = (users ! k, items ! k)\<close>, is the sum over
  the embedding dimension of the product of the dropped-out user embedding row of \<open>u\<close>
  and the dropped-out item embedding row of \<open>i\<close>, plus the bias of \<open>u\<close> plus the bias
  of \<open>i\<close>.
\<close>

theorem forward_score_formula:
  assumes "wf_model m" and "valid_batch m users items"
    and "y_range (hp m) = None" and "k < length users"
  shows "\<exists>preds. forward m noise_u noise_i users items = Inr preds \<and>
           length preds = length users \<and>
           gather (user_embeddings m) users ! k = user_embeddings m ! nat (users ! k) \<and>
           gather (item_embeddings m) items ! k = item_embeddings m ! nat (items ! k) \<and>
           preds ! k =
             (\<Sum>j<embedding_dim (hp m).
                dropout (dropout_p (hp m)) (training m) noise_u
                  (gather (user_embeddings m) users) ! k ! j *
                dropout (dropout_p (hp m)) (training m) noise_i
                  (gather (item_embeddings m) items) ! k ! j)
             + user_biases m ! nat (users ! k) ! 0
             + item_biases m ! nat (items ! k) ! 0"
proof -
  let ?preds = "map (raw_score m noise_u noise_i users items) [0..<length users]"
  have len: "length users = length items"
    using assms(2) by (simp add: valid_batch_def)
  have "forward m noise_u noise_i users items = Inr ?preds"
    using forward_valid[OF assms(1,2)] assms(3) by (simp add: apply_y_range_def)
  moreover have "?preds ! k = raw_score m noise_u noise_i users items k"
    using assms(4) by simp
  ultimately show ?thesis
    using assms(4) len by (simp add: raw_score_def dot_def gather_nth)
qed

text \<open>
  At \<open>example_model\<close> with users \<open>[0, 1]\<close>, items \<open>[2, 0]\<close> and the draw
  \<open>keep_even\<close> on the user side, the first prediction is \<open>2 * 2 + 0 * 2 + 1 + 5 = 10\<close>.
\<close>

theorem forward_score_formula_witness:
  "wf_model example_model \<and> valid_batch example_model [0, 1] [2, 0] \<and>
   y_range (hp example_model) = None \<and>
   (\<exists>preds. forward example_model keep_even keep_all [0, 1] [2, 0] = Inr preds \<and>
            length preds = 2 \<and> preds ! 0 = 10)"
proof -
  have wf: "wf_model example_model"
    by (simp add: wf_model_def example_model_def example_hparams_def)
  have vb: "valid_batch example_model [0, 1] [2, 0]"
    by (simp add: valid_batch_def example_model_def example_hparams_def)
  have yr: "y_range (hp example_model) = None"
    by (simp add: example_model_def example_hparams_def)
  have k: "0 < length [0, 1 :: int]"
    by simp
  obtain preds where fw: "forward example_model keep_even keep_all [0, 1] [2, 0] = Inr preds"
    and len: "length preds = length [0, 1 :: int]"
    and val: "preds ! 0 =
             (\<Sum>j<embedding_dim (hp example_model).
                dropout (dropout_p (hp example_model)) (training example_model) keep_even
                  (gather (user_embeddings example_model) [0, 1]) ! 0 ! j *
                dropout (dropout_p (hp example_model)) (training example_model) keep_all
                  (gather (item_embeddings example_model) [2, 0]) ! 0 ! j)
             + user_biases example_model ! nat ([0, 1] ! 0) ! 0
             + item_biases example_model ! nat ([2, 0] ! 0) ! 0"
    using forward_score_formula[OF wf vb yr k, of keep_even keep_all] by blast
  have "preds ! 0 = 10"
    unfolding val
    by (simp add: example_model_def example_hparams_def dropout_def gather_def
        keep_even_def keep_all_def lessThan_Suc numeral_2_eq_2)
  with wf vb yr fw len show ?thesis
    by simp
qed

text \<open>
  C2. For every batch of valid indices, when the output range \<open>(lo, hi)\<close> is configured,
  the prediction at every batch position is \<open>lo + sigmoid raw * (hi - lo)\<close>, where
  \<open>raw\<close> is the score the same forward pass computes before the squash (what
  \<open>forward\<close> returns with the range removed): the dot product of the dropped-out
  embedding rows plus the two biases.
\<close>

theorem forward_range_squash:
  assumes "wf_model m" and "valid_batch m users items"
    and "y_range (hp m) = Some (lo, hi)" and "k < length users"
  shows "\<exists>raw preds.
           forward (unsquashed m) noise_u noise_i users items = Inr raw \<and>
           forward m noise_u noise_i users items = Inr preds \<and>
           length raw = length users \<and> length preds = length users \<and>
           raw ! k = raw_score m noise_u noise_i users items k \<and>
           preds ! k = lo + sigmoid (raw ! k) * (hi - lo)"
proof -
  let ?raw = "map (raw_score m noise_u noise_i users items) [0..<length users]"
  let ?preds = "apply_y_range (y_range (hp m)) ?raw"
  have raw: "forward (unsquashed m) noise_u noise_i users items = Inr ?raw"
    by (rule forward_unsquashed_valid[OF assms(1,2)])
  have fw: "forward m noise_u noise_i users items = Inr ?preds"
    by (rule forward_valid[OF assms(1,2)])
  have len: "length ?preds = length users"
    using assms(3) by (simp add: apply_y_range_def)
  have val: "?preds ! k = lo + sigmoid (?raw ! k) * (hi - lo)"
    using assms(3,4) by (simp add: apply_y_range_def)
  have "?raw ! k = raw_score m noise_u noise_i users items k"
    using assms(4) by simp
  with raw fw len val show ?thesis
    by (intro exI[of _ ?raw] exI[of _ ?preds]) simp
qed

text \<open>
  At \<open>ranged_model\<close> (range \<open>(1, 5)\<close>) with every entry kept, the raw score of the pair
  \<open>(0, 2)\<close> is \<open>2 * 2 + 4 * 2 + 1 + 5 = 18\<close> and the prediction is
  \<open>1 + sigmoid 18 * 4\<close>.
\<close>

theorem forward_range_squash_witness:
  "wf_model ranged_model \<and> valid_batch ranged_model [0, 1] [2, 0] \<and>
   y_range (hp ranged_model) = Some (1, 5) \<and>
   (\<exists>raw preds.
      forward (unsquashed ranged_model) keep_all keep_all [0, 1] [2, 0] = Inr raw \<and>
      forward ranged_model keep_all keep_all [0, 1] [2, 0] = Inr preds \<and>
      raw ! 0 = 18 \<and> preds ! 0 = 1 + sigmoid 18 * 4)"
proof -
  have wf: "wf_model ranged_model"
    by (simp add: wf_model_def ranged_model_def example_model_def example_hparams_def)
  have vb: "valid_batch ranged_model [0, 1] [2, 0]"
    by (simp add: valid_batch_def ranged_model_def example_model_def example_hparams_def)
  have yr: "y_range (hp ranged_model) = Some (1, 5)"
    by (simp add: ranged_model_def example_model_def example_hparams_def)
  have k: "0 < length [0, 1 :: int]"
    by simp
  have score: "raw_score ranged_model keep_all keep_all [0, 1] [2, 0] 0 = 18"
    by (simp add: raw_score_def dot_def ranged_model_def example_model_def example_hparams_def
        dropout_def gather_def keep_all_def lessThan_Suc numeral_2_eq_2)
  obtain raw preds
    where "forward (unsquashed ranged_model) keep_all keep_all [0, 1] [2, 0] = Inr raw"
      and "forward ranged_model keep_all keep_all [0, 1] [2, 0] = Inr preds"
      and "raw ! 0 = raw_score ranged_model keep_all keep_all [0, 1] [2, 0] 0"
      and "preds ! 0 = 1 + sigmoid (raw ! 0) * (5 - 1)"
    using forward_range_squash[OF wf vb yr k, of keep_all keep_all] by blast
  with wf vb yr score show ?thesis
    by simp
qed




text \<open>
  C6. For every batch of valid user and item indices of equal length \<open>n\<close> (the empty
  batch included), \<open>forward\<close> returns a 1-d tensor of length \<open>n\<close>, whatever the output
  range, the mode and the dropout draw.
\<close>

theorem forward_output_length:
  assumes "wf_model m" and "valid_batch m users items"
  shows "\<exists>preds. forward m noise_u noise_i users items = Inr preds \<and>
           length preds = length users \<and> length preds = length items"
proof -
  let ?raw = "map (raw_score m noise_u noise_i users items) [0..<length users]"
  have "forward m noise_u noise_i users items = Inr (apply_y_range (y_range (hp m)) ?raw)"
    by (rule forward_valid[OF assms])
  moreover have "length (apply_y_range (y_range (hp m)) ?raw) = length users"
    by (simp add: apply_y_range_def split: option.split)
  moreover have "length users = length items"
    using assms(2) by (simp add: valid_batch_def)
  ultimately show ?thesis
    by simp
qed

text \<open>
  A batch of three pairs on \<open>ranged_model\<close>, in training mode with the draw
  \<open>keep_even\<close>: every lookup, the product and both additions run, and the result has
  length 3. On the empty batch the result has length 0.
\<close>

theorem forward_output_length_witness:
  "wf_model ranged_model \<and> valid_batch ranged_model [1, 0, 1] [2, 0, 1] \<and>
   valid_batch ranged_model [] [] \<and>
   (\<exists>preds. forward ranged_model keep_even keep_all [1, 0, 1] [2, 0, 1] = Inr preds \<and>
            length preds = 3) \<and>
   (\<exists>preds. forward ranged_model keep_even keep_all [] [] = Inr preds \<and> length preds = 0)"
proof -
  have wf: "wf_model ranged_model"
    by (simp add: wf_model_def ranged_model_def example_model_def example_hparams_def)
  have vb3: "valid_batch ranged_model [1, 0, 1] [2, 0, 1]"
    by (simp add: valid_batch_def ranged_model_def example_model_def example_hparams_def)
  have vb0: "valid_batch ranged_model [] []"
    by (simp add: valid_batch_def)
  have three: "\<exists>preds. forward ranged_model keep_even keep_all [1, 0, 1] [2, 0, 1] = Inr preds \<and>
                 length preds = 3"
    using forward_output_length[OF wf vb3, of keep_even keep_all] by (simp add: numeral_3_eq_3)
  have none: "\<exists>preds. forward ranged_model keep_even keep_all [] [] = Inr preds \<and>
                length preds = 0"
    using forward_output_length[OF wf vb0, of keep_even keep_all] by simp
  from wf vb3 vb0 three none show ?thesis
    by blast
qed

text \<open>
  C10. When an output range \<open>(lo, hi)\<close> with \<open>lo < hi\<close> is configured, no prediction
  attains an endpoint: over the reals every prediction lies strictly between \<open>lo\<close> and
  \<open>hi\<close>, since the logistic function takes its values strictly between 0 and 1.
\<close>

theorem forward_strictly_within_range:
  assumes "wf_model m" and "valid_batch m users items"
    and "y_range (hp m) = Some (lo, hi)" and "lo < hi"
  shows "\<exists>preds. forward m noise_u noise_i users items = Inr preds \<and>
           length preds = length users \<and>
           (\<forall>x \<in> set preds. lo < x \<and> x < hi)"
proof -
  let ?raw = "map (raw_score m noise_u noise_i users items) [0..<length users]"
  let ?preds = "apply_y_range (y_range (hp m)) ?raw"
  have fw: "forward m noise_u noise_i users items = Inr ?preds"
    by (rule forward_valid[OF assms(1,2)])
  have eq: "?preds = map (\<lambda>s. sigmoid s * (hi - lo) + lo) ?raw"
    using assms(3) by (simp add: apply_y_range_def)
  have "\<forall>x \<in> set ?preds. lo < x \<and> x < hi"
    unfolding eq using squash_strict_lower[OF assms(4)] squash_strict_upper[OF assms(4)] by auto
  moreover have "length ?preds = length users"
    unfolding eq by simp
  ultimately show ?thesis
    using fw by blast
qed

theorem forward_strictly_within_range_witness:
  "wf_model ranged_model \<and> valid_batch ranged_model [1, 1, 0] [0, 1, 2] \<and>
   y_range (hp ranged_model) = Some (1, 5) \<and> (1 :: real) < 5 \<and>
   (\<exists>preds. forward ranged_model keep_all keep_even [1, 1, 0] [0, 1, 2] = Inr preds \<and>
      length preds = 3 \<and> 1 < preds ! 2 \<and> preds ! 2 < 5)"
proof -
  have wf: "wf_model ranged_model"
    by (simp add: wf_model_def ranged_model_def example_model_def example_hparams_def)
  have vb: "valid_batch ranged_model [1, 1, 0] [0, 1, 2]"
    by (simp add: valid_batch_def ranged_model_def example_model_def example_hparams_def)
  have yr: "y_range (hp ranged_model) = Some (1, 5)"
    by (simp add: ranged_model_def example_model_def example_hparams_def)
  have lt: "(1 :: real) < 5"
    by simp
  obtain preds
    where fw: "forward ranged_model keep_all keep_even [1, 1, 0] [0, 1, 2] = Inr preds"
      and len: "length preds = length [1, 1, 0 :: int]"
      and bound: "\<forall>x \<in> set preds. 1 < x \<and> x < 5"
    using forward_strictly_within_range[OF wf vb yr lt, of keep_all keep_even] by blast
  from len have "preds ! 2 \<in> set preds"
    by simp
  with bound have "1 < preds ! 2 \<and> preds ! 2 < 5"
    by blast
  with wf vb yr fw len show ?thesis
    by simp
qed

section \<open>Zero tables and disabled dropout\<close>

lemma all_zero_nth:
  "all_zero t \<Longrightarrow> r < length t \<Longrightarrow> c < length (t ! r) \<Longrightarrow> t ! r ! c = 0"
  by (simp add: all_zero_def list_all_length)

lemma dropout_disabled: "p = 0 \<or> \<not> tr \<Longrightarrow> dropout p tr noise x = x"
  by (auto simp: dropout_def)

lemma bias_entry_zero:
  assumes "all_zero t" and "list_all (\<lambda>r. length r = 1) t"
    and "list_all (\<lambda>i. 0 \<le> i \<and> i < int (length t)) idx" and "k < length idx"
  shows "t ! nat (idx ! k) ! 0 = 0"
proof -
  have r: "nat (idx ! k) < length t"
    by (rule valid_index_nth[OF assms(3,4)])
  with assms(2) have "length (t ! nat (idx ! k)) = 1"
    by (simp add: list_all_length)
  with assms(1) r show ?thesis
    by (simp add: all_zero_nth)
qed

lemma dot_zero_rows:
  assumes "\<And>j. j < d \<Longrightarrow> r ! j = 0"
  shows "dot d r s = 0"
  using assms by (simp add: dot_def)

lemma dropout_gather_zero:
  assumes "all_zero w" and "list_all (\<lambda>r. length r = d) w"
    and "list_all (\<lambda>i. 0 \<le> i \<and> i < int (length w)) idx"
    and "k < length idx" and "j < d"
  shows "dropout p tr noise (gather w idx) ! k ! j = 0"
proof -
  have r: "nat (idx ! k) < length w"
    by (rule valid_index_nth[OF assms(3,4)])
  have len: "length (gather w idx ! k) = d"
    by (rule gather_row_length[OF assms(2,3,4)])
  have "gather w idx ! k ! j = 0"
    using assms(1,4,5) r len by (simp add: gather_nth all_zero_nth)
  then show ?thesis
    using assms(4,5) len by (intro dropout_zero_entry) (simp_all add: length_gather)
qed

text \<open>
  C4, as amended. With no output range configured, dropout disabled (probability zero
  or evaluation mode) and both bias tables all zero, the prediction for a valid pair
  \<open>(u, i)\<close> is the dot product of user embedding row \<open>u\<close> and item embedding row \<open>i\<close>.
\<close>

theorem forward_dot_product:
  assumes "wf_model m" and "valid_batch m users items"
    and "y_range (hp m) = None"
    and "dropout_p (hp m) = 0 \<or> \<not> training m"
    and "all_zero (user_biases m)" and "all_zero (item_biases m)"
    and "k < length users"
  shows "\<exists>preds. forward m noise_u noise_i users items = Inr preds \<and>
           length preds = length users \<and>
           preds ! k = dot (embedding_dim (hp m))
                         (user_embeddings m ! nat (users ! k))
                         (item_embeddings m ! nat (items ! k))"
proof -
  let ?preds = "map (raw_score m noise_u noise_i users items) [0..<length users]"
  have len: "length users = length items"
    using assms(2) by (simp add: valid_batch_def)
  have fw: "forward m noise_u noise_i users items = Inr ?preds"
    using forward_valid[OF assms(1,2)] assms(3) by (simp add: apply_y_range_def)
  have ub: "user_biases m ! nat (users ! k) ! 0 = 0"
    using assms(1,2,5,7) by (intro bias_entry_zero) (simp_all add: wf_model_def valid_batch_def)
  have ib: "item_biases m ! nat (items ! k) ! 0 = 0"
    using assms(1,2,6,7) len
    by (intro bias_entry_zero) (simp_all add: wf_model_def valid_batch_def)
  have "raw_score m noise_u noise_i users items k =
        dot (embedding_dim (hp m))
          (user_embeddings m ! nat (users ! k)) (item_embeddings m ! nat (items ! k))"
    using assms(7) len
    by (simp add: raw_score_def dropout_disabled[OF assms(4)] gather_nth ub ib)
  with fw assms(7) show ?thesis
    by simp
qed

text \<open>
  \<open>example_model\<close> in evaluation mode with its biases zeroed: for the pair \<open>(1, 2)\<close> the
  prediction is \<open>3 * 1 + 4 * 1 = 7\<close>.
\<close>

theorem forward_dot_product_witness:
  "wf_model (zero_biases (example_model\<lparr>training := False\<rparr>)) \<and>
   valid_batch (zero_biases (example_model\<lparr>training := False\<rparr>)) [0, 1] [0, 2] \<and>
   y_range (hp (zero_biases (example_model\<lparr>training := False\<rparr>))) = None \<and>
   \<not> training (zero_biases (example_model\<lparr>training := False\<rparr>)) \<and>
   all_zero (user_biases (zero_biases (example_model\<lparr>training := False\<rparr>))) \<and>
   all_zero (item_biases (zero_biases (example_model\<lparr>training := False\<rparr>))) \<and>
   (\<exists>preds. forward (zero_biases (example_model\<lparr>training := False\<rparr>))
              drop_all drop_all [0, 1] [0, 2] = Inr preds \<and>
            length preds = 2 \<and> preds ! 1 = 7)"
proof -
  let ?m = "zero_biases (example_model\<lparr>training := False\<rparr>)"
  have wf: "wf_model ?m"
    by (simp add: wf_model_def zero_biases_def example_model_def example_hparams_def)
  have vb: "valid_batch ?m [0, 1] [0, 2]"
    by (simp add: valid_batch_def zero_biases_def example_model_def example_hparams_def)
  have yr: "y_range (hp ?m) = None"
    by (simp add: zero_biases_def example_model_def example_hparams_def)
  have tr: "\<not> training ?m"
    by (simp add: zero_biases_def)
  then have off: "dropout_p (hp ?m) = 0 \<or> \<not> training ?m"
    by simp
  have zu: "all_zero (user_biases ?m)"
    by (simp add: all_zero_def zero_biases_def example_model_def)
  have zi: "all_zero (item_biases ?m)"
    by (simp add: all_zero_def zero_biases_def example_model_def)
  have k: "1 < length [0, 1 :: int]"
    by simp
  obtain preds where fw: "forward ?m drop_all drop_all [0, 1] [0, 2] = Inr preds"
    and len: "length preds = length [0, 1 :: int]"
    and val: "preds ! 1 = dot (embedding_dim (hp ?m))
                (user_embeddings ?m ! nat ([0, 1] ! 1)) (item_embeddings ?m ! nat ([0, 2] ! 1))"
    using forward_dot_product[OF wf vb yr off zu zi k, of drop_all drop_all] by blast
  have "preds ! 1 = 7"
    unfolding val
    by (simp add: dot_def zero_biases_def example_model_def example_hparams_def
        lessThan_Suc numeral_2_eq_2)
  with wf vb yr tr zu zi fw len show ?thesis
    by simp
qed

text \<open>
  The claim as stated, without the restriction to \<open>y_range = None\<close>, fails at
  \<open>zero_model\<close>: dropout is disabled, every bias is zero, the dot product of the two
  embedding rows is 0, and \<open>forward\<close> returns \<open>0 + sigmoid 0 * (1 - 0) = 1 / 2\<close>.
\<close>

theorem forward_dot_product_counterexample:
  "wf_model zero_model \<and> valid_batch zero_model [0] [0] \<and>
   dropout_p (hp zero_model) = 0 \<and> \<not> training zero_model \<and>
   all_zero (user_biases zero_model) \<and> all_zero (item_biases zero_model) \<and>
   forward zero_model keep_all keep_all [0] [0] = Inr [1 / 2] \<and>
   dot (embedding_dim (hp zero_model))
       (user_embeddings zero_model ! nat ([0] ! 0))
       (item_embeddings zero_model ! nat ([0] ! 0)) = 0 \<and>
   [1 / 2 :: real] ! 0 \<noteq> 0"
  by (simp add: wf_model_def valid_batch_def all_zero_def zero_model_def dot_def
      forward_def embedding_def and_then_def dropout_def torch_mul_def torch_add_def
      sum_axis1_def squeeze1_def apply_y_range_def sigmoid_def)

text \<open>
  C7, as amended. With no output range configured, if every entry of both embedding
  tables is zero, the prediction for a valid pair \<open>(u, i)\<close> is the bias of \<open>u\<close> plus the
  bias of \<open>i\<close>, in either mode and for every dropout draw.
\<close>

theorem forward_bias_only:
  assumes "wf_model m" and "valid_batch m users items"
    and "y_range (hp m) = None"
    and "all_zero (user_embeddings m)" and "all_zero (item_embeddings m)"
    and "k < length users"
  shows "\<exists>preds. forward m noise_u noise_i users items = Inr preds \<and>
           length preds = length users \<and>
           preds ! k = user_biases m ! nat (users ! k) ! 0 + item_biases m ! nat (items ! k) ! 0"
proof -
  let ?preds = "map (raw_score m noise_u noise_i users items) [0..<length users]"
  have fw: "forward m noise_u noise_i users items = Inr ?preds"
    using forward_valid[OF assms(1,2)] assms(3) by (simp add: apply_y_range_def)
  have rows: "list_all (\<lambda>r. length r = embedding_dim (hp m)) (user_embeddings m)"
    and vu: "list_all (\<lambda>i. 0 \<le> i \<and> i < int (length (user_embeddings m))) users"
    using assms(1,2) by (simp_all add: wf_model_def valid_batch_def)
  have "dot (embedding_dim (hp m))
          (dropout (dropout_p (hp m)) (training m) noise_u (gather (user_embeddings m) users) ! k)
          (dropout (dropout_p (hp m)) (training m) noise_i (gather (item_embeddings m) items) ! k)
        = 0"
    by (rule dot_zero_rows) (rule dropout_gather_zero[OF assms(4) rows vu assms(6)])
  then have "raw_score m noise_u noise_i users items k =
             user_biases m ! nat (users ! k) ! 0 + item_biases m ! nat (items ! k) ! 0"
    by (simp add: raw_score_def)
  with fw assms(6) show ?thesis
    by simp
qed

text \<open>
  \<open>example_model\<close> with both embedding tables zeroed, in training mode: for the pair
  \<open>(1, 0)\<close> the prediction is \<open>2 + 3 = 5\<close>.
\<close>

theorem forward_bias_only_witness:
  "wf_model (example_model\<lparr>user_embeddings := [[0, 0], [0, 0]],
                           item_embeddings := [[0, 0], [0, 0], [0, 0]]\<rparr>) \<and>
   valid_batch (example_model\<lparr>user_embeddings := [[0, 0], [0, 0]],
                              item_embeddings := [[0, 0], [0, 0], [0, 0]]\<rparr>) [1] [0] \<and>
   (\<exists>preds. forward (example_model\<lparr>user_embeddings := [[0, 0], [0, 0]],
                                   item_embeddings := [[0, 0], [0, 0], [0, 0]]\<rparr>)
              keep_even keep_all [1] [0] = Inr preds \<and>
            length preds = 1 \<and> preds ! 0 = 5)"
proof -
  let ?m = "example_model\<lparr>user_embeddings := [[0, 0], [0, 0]],
                          item_embeddings := [[0, 0], [0, 0], [0, 0]]\<rparr>"
  have wf: "wf_model ?m"
    by (simp add: wf_model_def example_model_def example_hparams_def)
  have vb: "valid_batch ?m [1] [0]"
    by (simp add: valid_batch_def example_model_def example_hparams_def)
  have yr: "y_range (hp ?m) = None"
    by (simp add: example_model_def example_hparams_def)
  have zu: "all_zero (user_embeddings ?m)"
    by (simp add: all_zero_def)
  have zi: "all_zero (item_embeddings ?m)"
    by (simp add: all_zero_def)
  have k: "0 < length [1 :: int]"
    by simp
  obtain preds where fw: "forward ?m keep_even keep_all [1] [0] = Inr preds"
    and len: "length preds = length [1 :: int]"
    and val: "preds ! 0 = user_biases ?m ! nat ([1] ! 0) ! 0 + item_biases ?m ! nat ([0] ! 0) ! 0"
    using forward_bias_only[OF wf vb yr zu zi k, of keep_even keep_all] by blast
  have "preds ! 0 = 5"
    unfolding val by (simp add: example_model_def)
  with wf vb fw len show ?thesis
    by simp
qed

text \<open>
  The claim as stated, without the restriction to \<open>y_range = None\<close>, fails at
  \<open>bias_model\<close>: both embedding tables are zero, the two biases add up to
  \<open>1 + (- 1) = 0\<close>, and \<open>forward\<close> returns \<open>0 + sigmoid 0 * (10 - 0) = 5\<close>.
\<close>

theorem forward_bias_only_counterexample:
  "wf_model bias_model \<and> valid_batch bias_model [0] [0] \<and>
   all_zero (user_embeddings bias_model) \<and> all_zero (item_embeddings bias_model) \<and>
   forward bias_model keep_all keep_all [0] [0] = Inr [5] \<and>
   user_biases bias_model ! nat ([0] ! 0) ! 0 + item_biases bias_model ! nat ([0] ! 0) ! 0 = 0 \<and>
   [5 :: real] ! 0 \<noteq> 0"
  by (simp add: wf_model_def valid_batch_def all_zero_def bias_model_def
      forward_def embedding_def and_then_def dropout_def torch_mul_def torch_add_def
      sum_axis1_def squeeze1_def apply_y_range_def sigmoid_def)

section \<open>Models with zeroed biases\<close>

lemma zero_biases_wf: "wf_model m \<Longrightarrow> wf_model (zero_biases m)"
  by (simp add: wf_model_def zero_biases_def list_all_length)

lemma zero_biases_valid:
  "valid_batch (zero_biases m) users items = valid_batch m users items"
  by (simp add: valid_batch_def zero_biases_def)

lemma zero_biases_entry:
  assumes "list_all (\<lambda>r. length r = 1) t"
    and "list_all (\<lambda>i. 0 \<le> i \<and> i < int (length t)) idx" and "k < length idx"
  shows "map (map (\<lambda>x. 0 :: real)) t ! nat (idx ! k) ! 0 = 0"
proof -
  have r: "nat (idx ! k) < length t"
    by (rule valid_index_nth[OF assms(2,3)])
  with assms(1) have "length (t ! nat (idx ! k)) = 1"
    by (simp add: list_all_length)
  with r show ?thesis
    by simp
qed

lemma zero_biases_raw_score:
  assumes "wf_model m" and "valid_batch m users items" and "k < length users"
  shows "raw_score (zero_biases m) noise_u noise_i users items k =
         dot (embedding_dim (hp m))
           (dropout (dropout_p (hp m)) (training m) noise_u (gather (user_embeddings m) users) ! k)
           (dropout (dropout_p (hp m)) (training m) noise_i (gather (item_embeddings m) items) ! k)"
proof -
  have len: "length users = length items"
    using assms(2) by (simp add: valid_batch_def)
  have ub: "map (map (\<lambda>x. 0 :: real)) (user_biases m) ! nat (users ! k) ! 0 = 0"
    using assms by (intro zero_biases_entry) (simp_all add: wf_model_def valid_batch_def)
  have ib: "map (map (\<lambda>x. 0 :: real)) (item_biases m) ! nat (items ! k) ! 0 = 0"
    using assms len by (intro zero_biases_entry) (simp_all add: wf_model_def valid_batch_def)
  show ?thesis
    using ub ib by (simp add: raw_score_def zero_biases_def)
qed

text \<open>
  C5. In \<open>forward\<close> dropout acts on the looked-up embedding rows only, never on the
  bias terms: for every mode, dropout probability and draw, the raw score of a valid
  pair is the raw score of the same model with zeroed biases (the dot product of the two
  dropped-out rows, the only part the draw can change) plus the two bias entries as they
  stand in the tables. Outside training mode dropout is the identity, and the dot
  product is that of the embedding rows themselves.
\<close>

theorem dropout_embeddings_only:
  assumes "wf_model m" and "valid_batch m users items" and "k < length users"
  shows "\<exists>raw bias_free.
           forward (unsquashed m) noise_u noise_i users items = Inr raw \<and>
           forward (unsquashed (zero_biases m)) noise_u noise_i users items = Inr bias_free \<and>
           bias_free ! k =
             dot (embedding_dim (hp m))
               (dropout (dropout_p (hp m)) (training m) noise_u
                  (gather (user_embeddings m) users) ! k)
               (dropout (dropout_p (hp m)) (training m) noise_i
                  (gather (item_embeddings m) items) ! k) \<and>
           raw ! k = bias_free ! k + user_biases m ! nat (users ! k) ! 0
                                   + item_biases m ! nat (items ! k) ! 0 \<and>
           (\<not> training m \<longrightarrow>
              dropout (dropout_p (hp m)) (training m) noise_u x = x \<and>
              dropout (dropout_p (hp m)) (training m) noise_i x = x \<and>
              bias_free ! k =
                dot (embedding_dim (hp m))
                  (user_embeddings m ! nat (users ! k))
                  (item_embeddings m ! nat (items ! k)))"
proof -
  let ?raw = "map (raw_score m noise_u noise_i users items) [0..<length users]"
  let ?free = "map (raw_score (zero_biases m) noise_u noise_i users items) [0..<length users]"
  let ?dot = "dot (embedding_dim (hp m))
               (dropout (dropout_p (hp m)) (training m) noise_u
                  (gather (user_embeddings m) users) ! k)
               (dropout (dropout_p (hp m)) (training m) noise_i
                  (gather (item_embeddings m) items) ! k)"
  have len: "length users = length items"
    using assms(2) by (simp add: valid_batch_def)
  have raw: "forward (unsquashed m) noise_u noise_i users items = Inr ?raw"
    by (rule forward_unsquashed_valid[OF assms(1,2)])
  have vb0: "valid_batch (zero_biases m) users items"
    using assms(2) by (simp add: zero_biases_valid)
  have free: "forward (unsquashed (zero_biases m)) noise_u noise_i users items = Inr ?free"
    by (rule forward_unsquashed_valid[OF zero_biases_wf[OF assms(1)] vb0])
  have free_k: "?free ! k = ?dot"
    using assms(3) by (simp add: zero_biases_raw_score[OF assms])
  have raw_k: "?raw ! k = ?free ! k + user_biases m ! nat (users ! k) ! 0
                                    + item_biases m ! nat (items ! k) ! 0"
    unfolding free_k using assms(3) by (simp add: raw_score_def)
  have eval_mode: "?free ! k = dot (embedding_dim (hp m))
                      (user_embeddings m ! nat (users ! k))
                      (item_embeddings m ! nat (items ! k))"
    if "\<not> training m"
    unfolding free_k using that assms(3) len by (simp add: dropout_def gather_nth)
  show ?thesis
    using raw free free_k raw_k eval_mode
    by (intro exI[of _ ?raw] exI[of _ ?free]) (simp add: dropout_def)
qed

text \<open>
  \<open>example_model\<close> in evaluation mode with the draw that drops everything: for the pair
  \<open>(0, 2)\<close> the bias-free score is the plain dot product \<open>1 * 1 + 2 * 1 = 3\<close> and the raw
  score is \<open>3 + 1 + 5 = 9\<close>.
\<close>

theorem dropout_embeddings_only_witness:
  "wf_model (example_model\<lparr>training := False\<rparr>) \<and>
   valid_batch (example_model\<lparr>training := False\<rparr>) [0] [2] \<and>
   \<not> training (example_model\<lparr>training := False\<rparr>) \<and>
   (\<exists>raw bias_free.
      forward (unsquashed (example_model\<lparr>training := False\<rparr>)) drop_all drop_all [0] [2]
        = Inr raw \<and>
      forward (unsquashed (zero_biases (example_model\<lparr>training := False\<rparr>)))
        drop_all drop_all [0] [2] = Inr bias_free \<and>
      bias_free ! 0 = 3 \<and> raw ! 0 = 9)"
proof -
  let ?m = "example_model\<lparr>training := False\<rparr>"
  have wf: "wf_model ?m"
    by (simp add: wf_model_def example_model_def example_hparams_def)
  have vb: "valid_batch ?m [0] [2]"
    by (simp add: valid_batch_def example_model_def example_hparams_def)
  have ev: "\<not> training ?m"
    by simp
  have k: "0 < length [0 :: int]"
    by simp
  obtain raw bias_free
    where r: "forward (unsquashed ?m) drop_all drop_all [0] [2] = Inr raw"
      and f: "forward (unsquashed (zero_biases ?m)) drop_all drop_all [0] [2] = Inr bias_free"
      and rk: "raw ! 0 = bias_free ! 0 + user_biases ?m ! nat ([0] ! 0) ! 0
                                       + item_biases ?m ! nat ([2] ! 0) ! 0"
      and fk: "\<not> training ?m \<longrightarrow>
                 bias_free ! 0 = dot (embedding_dim (hp ?m))
                   (user_embeddings ?m ! nat ([0] ! 0)) (item_embeddings ?m ! nat ([2] ! 0))"
    using dropout_embeddings_only[OF wf vb k, of drop_all drop_all] by blast
  from fk ev have "bias_free ! 0 = 3"
    by (simp add: dot_def example_model_def example_hparams_def lessThan_Suc numeral_2_eq_2)
  moreover from this rk have "raw ! 0 = 9"
    by (simp add: example_model_def)
  ultimately show ?thesis
    using wf vb r f by simp
qed

text \<open>
  C8. The post-processing applied when \<open>y_range = (lo, hi)\<close> is configured is monotonic
  in the raw score and has no learned parameter: for any two well-formed models with the
  same range \<open>lo \<le> hi\<close> (their tables may differ) and any two valid batches, a raw score
  that is less than or equal to another gives a prediction less than or equal to the
  other's, and equal raw scores give equal predictions.
\<close>

theorem squash_monotone_parameter_free:
  assumes "wf_model m1" and "valid_batch m1 users1 items1"
    and "wf_model m2" and "valid_batch m2 users2 items2"
    and "y_range (hp m1) = Some (lo, hi)" and "y_range (hp m2) = Some (lo, hi)"
    and "lo \<le> hi"
    and "k1 < length users1" and "k2 < length users2"
  shows "\<exists>raw1 raw2 preds1 preds2.
           forward (unsquashed m1) noise_u1 noise_i1 users1 items1 = Inr raw1 \<and>
           forward (unsquashed m2) noise_u2 noise_i2 users2 items2 = Inr raw2 \<and>
           forward m1 noise_u1 noise_i1 users1 items1 = Inr preds1 \<and>
           forward m2 noise_u2 noise_i2 users2 items2 = Inr preds2 \<and>
           (raw1 ! k1 \<le> raw2 ! k2 \<longrightarrow> preds1 ! k1 \<le> preds2 ! k2) \<and>
           (raw1 ! k1 = raw2 ! k2 \<longrightarrow> preds1 ! k1 = preds2 ! k2)"
proof -
  let ?raw1 = "map (raw_score m1 noise_u1 noise_i1 users1 items1) [0..<length users1]"
  let ?raw2 = "map (raw_score m2 noise_u2 noise_i2 users2 items2) [0..<length users2]"
  let ?p1 = "apply_y_range (y_range (hp m1)) ?raw1"
  let ?p2 = "apply_y_range (y_range (hp m2)) ?raw2"
  have r1: "forward (unsquashed m1) noise_u1 noise_i1 users1 items1 = Inr ?raw1"
    by (rule forward_unsquashed_valid[OF assms(1,2)])
  have r2: "forward (unsquashed m2) noise_u2 noise_i2 users2 items2 = Inr ?raw2"
    by (rule forward_unsquashed_valid[OF assms(3,4)])
  have f1: "forward m1 noise_u1 noise_i1 users1 items1 = Inr ?p1"
    by (rule forward_valid[OF assms(1,2)])
  have f2: "forward m2 noise_u2 noise_i2 users2 items2 = Inr ?p2"
    by (rule forward_valid[OF assms(3,4)])
  have v1: "?p1 ! k1 = sigmoid (?raw1 ! k1) * (hi - lo) + lo"
    using assms(5,8) by (simp add: apply_y_range_def)
  have v2: "?p2 ! k2 = sigmoid (?raw2 ! k2) * (hi - lo) + lo"
    using assms(6,9) by (simp add: apply_y_range_def)
  have mono: "?p1 ! k1 \<le> ?p2 ! k2" if "?raw1 ! k1 \<le> ?raw2 ! k2"
    unfolding v1 v2 by (rule squash_mono[OF assms(7) that])
  have same: "?p1 ! k1 = ?p2 ! k2" if "?raw1 ! k1 = ?raw2 ! k2"
    unfolding v1 v2 using that by simp
  show ?thesis
    using r1 r2 f1 f2 mono same
    by (intro exI[of _ ?raw1] exI[of _ ?raw2] exI[of _ ?p1] exI[of _ ?p2]) blast
qed

text \<open>
  Two models with the range \<open>(1, 5)\<close> and different bias tables: the pair \<open>(0, 0)\<close> of
  \<open>ranged_model\<close> with everything dropped has raw score \<open>1 + 3 = 4\<close>, the pair \<open>(1, 2)\<close>
  of the other model in evaluation mode has raw score \<open>3 + 4 + 20 + 5 = 32\<close>, and the
  first prediction is at most the second.
\<close>

theorem squash_monotone_parameter_free_witness:
  "wf_model ranged_model \<and> valid_batch ranged_model [0] [0] \<and>
   wf_model (ranged_model\<lparr>user_biases := [[10], [20]], training := False\<rparr>) \<and>
   valid_batch (ranged_model\<lparr>user_biases := [[10], [20]], training := False\<rparr>) [1] [2] \<and>
   y_range (hp ranged_model) = Some (1, 5) \<and>
   y_range (hp (ranged_model\<lparr>user_biases := [[10], [20]], training := False\<rparr>)) = Some (1, 5) \<and>
   (1 :: real) \<le> 5 \<and>
   forward (unsquashed ranged_model) drop_all drop_all [0] [0] = Inr [4] \<and>
   forward (unsquashed (ranged_model\<lparr>user_biases := [[10], [20]], training := False\<rparr>))
     keep_all keep_all [1] [2] = Inr [32] \<and>
   (\<exists>preds1 preds2.
      forward ranged_model drop_all drop_all [0] [0] = Inr preds1 \<and>
      forward (ranged_model\<lparr>user_biases := [[10], [20]], training := False\<rparr>)
        keep_all keep_all [1] [2] = Inr preds2 \<and>
      preds1 ! 0 \<le> preds2 ! 0)"
proof -
  let ?m2 = "ranged_model\<lparr>user_biases := [[10], [20]], training := False\<rparr>"
  have wf1: "wf_model ranged_model"
    by (simp add: wf_model_def ranged_model_def example_model_def example_hparams_def)
  have vb1: "valid_batch ranged_model [0] [0]"
    by (simp add: valid_batch_def ranged_model_def example_model_def example_hparams_def)
  have wf2: "wf_model ?m2"
    by (simp add: wf_model_def ranged_model_def example_model_def example_hparams_def)
  have vb2: "valid_batch ?m2 [1] [2]"
    by (simp add: valid_batch_def ranged_model_def example_model_def example_hparams_def)
  have yr1: "y_range (hp ranged_model) = Some (1, 5)"
    by (simp add: ranged_model_def example_model_def example_hparams_def)
  have yr2: "y_range (hp ?m2) = Some (1, 5)"
    by (simp add: ranged_model_def example_model_def example_hparams_def)
  have le: "(1 :: real) \<le> 5"
    by simp
  have k: "0 < length [0 :: int]" "0 < length [1 :: int]"
    by simp_all
  have raw1: "forward (unsquashed ranged_model) drop_all drop_all [0] [0] = Inr [4]"
    by (simp add: forward_def unsquashed_def ranged_model_def example_model_def
        example_hparams_def embedding_def and_then_def dropout_def torch_mul_def torch_add_def
        sum_axis1_def squeeze1_def apply_y_range_def drop_all_def upt_conv_Cons)
  have raw2: "forward (unsquashed ?m2) keep_all keep_all [1] [2] = Inr [32]"
    by (simp add: forward_def unsquashed_def ranged_model_def example_model_def
        example_hparams_def embedding_def and_then_def dropout_def torch_mul_def torch_add_def
        sum_axis1_def squeeze1_def apply_y_range_def)
  obtain r1 r2 p1 p2
    where "forward (unsquashed ranged_model) drop_all drop_all [0] [0] = Inr r1"
      and "forward (unsquashed ?m2) keep_all keep_all [1] [2] = Inr r2"
      and p1: "forward ranged_model drop_all drop_all [0] [0] = Inr p1"
      and p2: "forward ?m2 keep_all keep_all [1] [2] = Inr p2"
      and imp: "r1 ! 0 \<le> r2 ! 0 \<longrightarrow> p1 ! 0 \<le> p2 ! 0"
    using squash_monotone_parameter_free[OF wf1 vb1 wf2 vb2 yr1 yr2 le k,
        of drop_all drop_all keep_all keep_all] by blast
  with raw1 raw2 have "p1 ! 0 \<le> p2 ! 0"
    by simp
  with wf1 vb1 wf2 vb2 yr1 yr2 raw1 raw2 p1 p2 show ?thesis
    by simp
qed

section \<open>Model setup\<close>

lemma setup_model_wf:
  "setup_model h init_u init_i = Inr m \<Longrightarrow> wf_model m \<and> hp m = h \<and> training m"
  by (auto simp: setup_model_def wf_model_def ZeroEmbedding_def ScaledEmbedding_def
      list_all_length split: if_splits)

text \<open>
  C9. After model setup the user bias table has shape \<open>(num_users \<times> 1)\<close>, the item bias
  table has shape \<open>(num_items \<times> 1)\<close>, and every entry of both is zero: each table has one
  row per user (item) and every row is \<open>[0]\<close>. Setup returns whenever the dropout
  probability lies in \<open>[0, 1]\<close>.
\<close>

theorem setup_model_bias_tables:
  assumes "0 \<le> dropout_p h" and "dropout_p h \<le> 1"
  shows "\<exists>m. setup_model h init_u init_i = Inr m \<and>
           length (user_biases m) = num_users h \<and>
           length (item_biases m) = num_items h \<and>
           (\<forall>r \<in> set (user_biases m). r = [0]) \<and>
           (\<forall>r \<in> set (item_biases m). r = [0])"
  using assms by (simp add: setup_model_def ZeroEmbedding_def)

theorem setup_model_bias_tables_witness:
  "(0 :: real) \<le> dropout_p example_hparams \<and> dropout_p example_hparams \<le> 1 \<and>
   (\<exists>m. setup_model example_hparams (\<lambda>r c. 1) (\<lambda>r c. 2) = Inr m \<and>
        user_biases m = [[0], [0]] \<and> item_biases m = [[0], [0], [0]])"
proof -
  have lo: "0 \<le> dropout_p example_hparams" and hi: "dropout_p example_hparams \<le> 1"
    by (simp_all add: example_hparams_def)
  obtain m where s: "setup_model example_hparams (\<lambda>r c. 1) (\<lambda>r c. 2) = Inr m"
    and lu: "length (user_biases m) = num_users example_hparams"
    and li: "length (item_biases m) = num_items example_hparams"
    and zu: "\<forall>r \<in> set (user_biases m). r = [0]"
    and zi: "\<forall>r \<in> set (item_biases m). r = [0]"
    using setup_model_bias_tables[OF lo hi, of "\<lambda>r c. 1" "\<lambda>r c. 2"] by blast
  have "user_biases m = replicate 2 [0]"
    using lu zu by (intro replicate_eqI) (simp_all add: example_hparams_def)
  then have "user_biases m = [[0], [0]]"
    by (simp add: numeral_2_eq_2)
  moreover have "item_biases m = replicate 3 [0]"
    using li zi by (intro replicate_eqI) (simp_all add: example_hparams_def)
  then have "item_biases m = [[0], [0], [0]]"
    by (simp add: numeral_3_eq_3)
  ultimately show ?thesis
    using lo hi s by simp
qed

section \<open>Batches that fail\<close>

text \<open>
  The error branches of the model are live: a user index outside the table raises the
  indexing error before anything else is computed, and two batches of different lengths
  (neither of length one) raise the shape error of the product.
\<close>

lemma forward_user_index_error:
  assumes "\<not> list_all (\<lambda>u. 0 \<le> u \<and> u < int (length (user_embeddings m))) users"
  shows "forward m noise_u noise_i users items = Inl IndexError"
  using assms by (simp add: forward_def embedding_def and_then_def)

lemma forward_negative_index_example:
  "forward example_model keep_all keep_all [0, - 1] [2, 0] = Inl IndexError"
  by (rule forward_user_index_error) (simp add: example_model_def)

lemma forward_length_mismatch_example:
  "forward example_model keep_all keep_all [0, 1] [2, 0, 1] = Inl RuntimeError"
  by (simp add: forward_def example_model_def example_hparams_def embedding_def and_then_def
      dropout_def torch_mul_def)

end
